theory Spec2Isabelle
  imports Main "HOL-Library.Word"
begin

unbundle bit_operations_syntax

section \<open>The MIDI receiver plug-in (UnityMidiReceiver.cpp)\<close>

text \<open>
  The plug-in is Windows-only code (it includes \<open>Windows.h\<close> and talks to the winmm MIDI
  input API). A handle \<open>HMIDIIN\<close> and a \<open>DWORD_PTR\<close> are pointer-sized: they are words of
  a width \<open>'p\<close> that is 32 on Win32 and 64 on Win64. \<open>UINT\<close>, \<open>MMRESULT\<close> and \<open>int\<close> are
  32 bits wide.
\<close>

subsection \<open>Handles and messages\<close>

text \<open>
  \<open>ConvertHandle\<close>: the \<open>reinterpret_cast<uint32_t>\<close> of a handle keeps its low 32 bits.
\<close>

definition ConvertHandle :: "'p::len word \<Rightarrow> 32 word" where
  "ConvertHandle handle = ucast handle"

text \<open>
  \<open>union Message\<close> overlays \<open>uint64Value\<close> with a struct of a \<open>uint32_t\<close> at offset 0 and
  three \<open>uint8_t\<close> at offsets 4, 5 and 6; the \<open>static_assert\<close> fixes its size to 8 bytes,
  so the byte at offset 7 is padding. The record holds the eight bytes of the union: the
  four members of the struct and the padding byte.
\<close>

record Message =
  source :: "32 word"
  status :: "8 word"
  data1 :: "8 word"
  data2 :: "8 word"
  padding :: "8 word"

text \<open>
  The constructor initialises the four members and nothing else. The padding byte keeps
  whatever the storage of the object held before: it is the argument \<open>uninit\<close>.
\<close>

definition Message_init ::
    "8 word \<Rightarrow> 'p::len word \<Rightarrow> 8 word \<Rightarrow> 8 word \<Rightarrow> 8 word \<Rightarrow> Message" where
  "Message_init uninit aSource aStatus aData1 aData2 =
     \<lparr>source = ConvertHandle aSource, status = aStatus, data1 = aData1, data2 = aData2,
      padding = uninit\<rparr>"

text \<open>
  Reading the member \<open>uint64Value\<close> reads the eight bytes as one integer. Every Windows
  target is little-endian: the byte at offset \<open>k\<close> is bits \<open>8k+7..8k\<close> of the value.
\<close>

definition uint64Value :: "Message \<Rightarrow> 64 word" where
  "uint64Value m =
     ucast (source m) OR push_bit 32 (ucast (status m)) OR push_bit 40 (ucast (data1 m))
       OR push_bit 48 (ucast (data2 m)) OR push_bit 56 (ucast (padding m))"

text \<open>
  The other direction of the union: storing a 64-bit value through \<open>uint64Value\<close> and
  reading the members of the struct.
\<close>

definition Message_of_uint64 :: "64 word \<Rightarrow> Message" where
  "Message_of_uint64 v =
     \<lparr>source = ucast v, status = ucast (drop_bit 32 v), data1 = ucast (drop_bit 40 v),
      data2 = ucast (drop_bit 48 v), padding = ucast (drop_bit 56 v)\<rparr>"

subsection \<open>The platform\<close>

text \<open>
  What the code takes from \<open>Windows.h\<close> and winmm: the two constants it compares against,
  the device count reported by \<open>midiInGetNumDevs\<close>, and the results of \<open>midiInOpen\<close> (the
  \<open>MMRESULT\<close> and the handle written through the out-parameter) and of \<open>midiInStart\<close>.
  The device identifier passed to \<open>midiInOpen\<close> is the loop counter, a non-negative
  \<open>int\<close>; its conversion to \<open>UINT\<close> keeps the value. When \<open>midiInOpen\<close> fails, the
  second component is what the local variable \<open>handle\<close> holds after the call.

  The last field is the one build setting the code depends on: whether the macro \<open>NDEBUG\<close>
  is defined where \<open>cassert\<close> is included. With \<open>NDEBUG\<close> every \<open>assert\<close> expands to
  nothing; without it a failed \<open>assert\<close> aborts the process. Nothing in the source file
  fixes the setting.
\<close>

record (overloaded) 'p winmm =
  MIM_DATA :: "32 word"
  MMSYSERR_NOERROR :: "32 word"
  midiInGetNumDevs :: "32 word"
  midiInOpen :: "int \<Rightarrow> 32 word \<times> 'p word"
  midiInStart :: "'p word \<Rightarrow> 32 word"
  NDEBUG :: bool

subsection \<open>The state of the plug-in\<close>

text \<open>
  The globals \<open>handles\<close>, \<open>messageQueue\<close> (front of the queue first) and
  \<open>messageQueueLock\<close> (held or not), and two histories that record what the code did:
  \<open>calls\<close>, the winmm calls that open, start or close a session, and \<open>accesses\<close>, every
  access to \<open>messageQueue\<close> together with whether \<open>messageQueueLock\<close> was held then.
\<close>

datatype 'h call = MidiInClose 'h | MidiInOpen int | MidiInStart 'h

datatype queue_op = QueueEmpty | QueueBack | QueuePop | QueuePush | QueueSwap

record (overloaded) 'p state =
  handles :: "'p word list"
  messageQueue :: "Message list"
  messageQueueLock :: bool
  calls :: "'p word call list"
  accesses :: "(queue_op \<times> bool) list"

datatype error = AssertionFailed

definition lock :: "'p state \<Rightarrow> 'p state" where
  "lock st = st\<lparr>messageQueueLock := True\<rparr>"

definition unlock :: "'p state \<Rightarrow> 'p state" where
  "unlock st = st\<lparr>messageQueueLock := False\<rparr>"

definition access :: "queue_op \<Rightarrow> 'p state \<Rightarrow> 'p state" where
  "access qop st = st\<lparr>accesses := accesses st @ [(qop, messageQueueLock st)]\<rparr>"

definition call :: "'p word call \<Rightarrow> 'p state \<Rightarrow> 'p state" where
  "call c st = st\<lparr>calls := calls st @ [c]\<rparr>"

text \<open>\<open>std::queue\<close>: \<open>push\<close> appends at the back, \<open>pop\<close> removes the front.\<close>

definition queue_push :: "Message \<Rightarrow> 'p state \<Rightarrow> 'p state" where
  "queue_push m st = (access QueuePush st)\<lparr>messageQueue := messageQueue st @ [m]\<rparr>"

definition queue_pop :: "'p state \<Rightarrow> 'p state" where
  "queue_pop st = (access QueuePop st)\<lparr>messageQueue := tl (messageQueue st)\<rparr>"

definition queue_swap_empty :: "'p state \<Rightarrow> 'p state" where
  "queue_swap_empty st = (access QueueSwap st)\<lparr>messageQueue := []\<rparr>"

subsection \<open>The callback\<close>

text \<open>
  \<open>MyMidiInProc\<close>: for the message kind \<open>MIM_DATA\<close> the three low bytes of \<open>dwParam1\<close>
  become one \<open>Message\<close>, pushed between \<open>lock\<close> and \<open>unlock\<close>; any other kind does
  nothing. \<open>uninit\<close> is the padding byte of the temporary \<open>Message\<close>.
\<close>

definition MyMidiInProc ::
    "'p::len winmm \<Rightarrow> 8 word \<Rightarrow> 'p word \<Rightarrow> 32 word \<Rightarrow> 'p word \<Rightarrow> 'p word \<Rightarrow> 'p word
      \<Rightarrow> 'p state \<Rightarrow> 'p state" where
  "MyMidiInProc P uninit hMidiIn wMsg dwInstance dwParam1 dwParam2 st =
     (if wMsg = MIM_DATA P then
        let status = ucast (dwParam1 AND 0xff);
            data1 = ucast (drop_bit 8 dwParam1 AND 0xff);
            data2 = ucast (drop_bit 16 dwParam1 AND 0xff)
        in unlock (queue_push (Message_init uninit hMidiIn status data1 data2) (lock st))
      else st)"

subsection \<open>The state update\<close>

text \<open>The first loop of \<open>ResetPluginIfRequired\<close>: \<open>midiInClose\<close> on every handle.\<close>

fun close_handles :: "'p word list \<Rightarrow> 'p::len state \<Rightarrow> 'p state" where
  "close_handles [] st = st"
| "close_handles (handle # rest) st = close_handles rest (call (MidiInClose handle) st)"

text \<open>
  The second loop, from the counter \<open>i\<close> on: open device \<open>i\<close>, assert, start it, assert,
  append the handle. Without \<open>NDEBUG\<close> a failed \<open>assert\<close> aborts the process: the result
  is \<open>Inl AssertionFailed\<close> and there is no state any more. With \<open>NDEBUG\<close> the two
  \<open>assert\<close> lines are empty: the loop goes on whatever the two calls returned.
\<close>

function open_devices :: "'p::len winmm \<Rightarrow> int \<Rightarrow> int \<Rightarrow> 'p state \<Rightarrow> error + 'p state" where
  "open_devices P i deviceCount st =
     (if i < deviceCount then
        let (result, handle) = midiInOpen P i;
            st1 = call (MidiInOpen i) st
        in if \<not> NDEBUG P \<and> result \<noteq> MMSYSERR_NOERROR P then Inl AssertionFailed
           else
             let result2 = midiInStart P handle;
                 st2 = call (MidiInStart handle) st1
             in if \<not> NDEBUG P \<and> result2 \<noteq> MMSYSERR_NOERROR P then Inl AssertionFailed
                else open_devices P (i + 1) deviceCount (st2\<lparr>handles := handles st2 @ [handle]\<rparr>)
      else Inr st)"
  by pat_completeness auto
termination
  by (relation "measure (\<lambda>(P, i, deviceCount, st). nat (deviceCount - i))") auto

declare open_devices.simps [simp del]

text \<open>
  \<open>ResetPluginIfRequired\<close>. \<open>deviceCount\<close> is the \<open>UINT\<close> of \<open>midiInGetNumDevs\<close> stored
  in an \<open>int\<close>. In \<open>deviceCount == handles.size()\<close> the \<open>int\<close> is converted to \<open>size_t\<close>:
  a non-negative count is compared by value, and a negative one becomes a value of at least
  \<open>2^31\<close> (Win32) or \<open>2^64 - 2^31\<close> (Win64), more handles than a vector can hold, so the
  comparison is that of the integer values. The queue is emptied by the \<open>std::swap\<close> with
  an empty queue; the code takes no lock around it.
\<close>

definition ResetPluginIfRequired :: "'p::len winmm \<Rightarrow> 'p state \<Rightarrow> error + 'p state" where
  "ResetPluginIfRequired P st =
     (let deviceCount = sint (midiInGetNumDevs P)
      in if deviceCount = int (length (handles st)) then Inr st
         else
           let st1 = close_handles (handles st) st;
               st2 = st1\<lparr>handles := []\<rparr>;
               st3 = queue_swap_empty st2
           in open_devices P 0 deviceCount st3)"

subsection \<open>Exposed functions\<close>

text \<open>\<open>static_cast<int>\<close> of a \<open>size_t\<close>: the low 32 bits, read as two's complement.\<close>

definition static_cast_int :: "nat \<Rightarrow> int" where
  "static_cast_int n = sint (word_of_nat n :: 32 word)"

definition CountEndpoints :: "'p::len winmm \<Rightarrow> 'p state \<Rightarrow> error + int \<times> 'p state" where
  "CountEndpoints P st =
     (case ResetPluginIfRequired P st of
        Inl e \<Rightarrow> Inl e
      | Inr st1 \<Rightarrow> Inr (static_cast_int (length (handles st1)), st1))"

text \<open>
  \<open>handles[index]\<close>: \<open>operator[]\<close> of a vector has no bounds check, and an index outside
  the vector is undefined behaviour: \<open>None\<close>.
\<close>

definition vector_at :: "'a list \<Rightarrow> int \<Rightarrow> 'a option" where
  "vector_at v i = (if 0 \<le> i \<and> i < int (length v) then Some (v ! nat i) else None)"

text \<open>\<open>GetEndpointIDAtIndex\<close>; the argument is the \<open>int index\<close>.\<close>

definition GetEndpointIDAtIndex :: "32 word \<Rightarrow> 'p::len state \<Rightarrow> 32 word option" where
  "GetEndpointIDAtIndex index st =
     (if 0 \<le> sint index \<and> sint index < static_cast_int (length (handles st))
      then map_option ConvertHandle (vector_at (handles st) (sint index))
      else Some 0)"

text \<open>
  \<open>DequeueIncomingData\<close>: the state update, then \<open>empty()\<close> before the lock is taken,
  then, under the lock, \<open>back()\<close> (the element at the back of the queue) and \<open>pop()\<close>
  (which removes the element at the front).
\<close>

definition DequeueIncomingData ::
    "'p::len winmm \<Rightarrow> 'p state \<Rightarrow> error + 64 word \<times> 'p state" where
  "DequeueIncomingData P st =
     (case ResetPluginIfRequired P st of
        Inl e \<Rightarrow> Inl e
      | Inr st1 \<Rightarrow>
          let st2 = access QueueEmpty st1
          in if messageQueue st2 = [] then Inr (0, st2)
             else
               let st3 = access QueueBack (lock st2);
                   m = last (messageQueue st3);
                   st4 = queue_pop st3
               in Inr (uint64Value m, unlock st4))"

subsection \<open>Notions used to state the properties\<close>

text \<open>
  The platform contract for the devices \<open>i..deviceCount-1\<close>: \<open>midiInOpen\<close> succeeds on
  each, and \<open>midiInStart\<close> succeeds on the handle it returned.
\<close>

definition slots_ok :: "'p::len winmm \<Rightarrow> int \<Rightarrow> int \<Rightarrow> bool" where
  "slots_ok P i deviceCount =
     list_all (\<lambda>j. fst (midiInOpen P j) = MMSYSERR_NOERROR P
                 \<and> midiInStart P (snd (midiInOpen P j)) = MMSYSERR_NOERROR P)
       [i..deviceCount - 1]"

text \<open>The handles of those devices, and the winmm calls that open and start them, in order.\<close>

definition opened_handles :: "'p::len winmm \<Rightarrow> int \<Rightarrow> int \<Rightarrow> 'p word list" where
  "opened_handles P i deviceCount = map (\<lambda>j. snd (midiInOpen P j)) [i..deviceCount - 1]"

definition opening_calls :: "'p::len winmm \<Rightarrow> int \<Rightarrow> int \<Rightarrow> 'p word call list" where
  "opening_calls P i deviceCount =
     concat (map (\<lambda>j. [MidiInOpen j, MidiInStart (snd (midiInOpen P j))]) [i..deviceCount - 1])"

text \<open>What an exposed function returned, when it did not abort.\<close>

definition returned :: "error + 'a \<times> 's \<Rightarrow> 'a option" where
  "returned r = (case r of Inl e \<Rightarrow> None | Inr (v, st) \<Rightarrow> Some v)"

text \<open>
  The decoding of a dequeued value as the interface description words it: endpoint
  identifier in bits 63-32, status in bits 31-24, data1 in bits 23-16, data2 in bits 15-8,
  and the low byte. These follow the description, not the code.
\<close>

definition described_endpointId :: "64 word \<Rightarrow> 32 word" where
  "described_endpointId v = ucast (drop_bit 32 v)"

definition described_status :: "64 word \<Rightarrow> 8 word" where
  "described_status v = ucast (drop_bit 24 v)"

definition described_data1 :: "64 word \<Rightarrow> 8 word" where
  "described_data1 v = ucast (drop_bit 16 v)"

definition described_data2 :: "64 word \<Rightarrow> 8 word" where
  "described_data2 v = ucast (drop_bit 8 v)"

definition described_low_byte :: "64 word \<Rightarrow> 8 word" where
  "described_low_byte v = ucast v"

subsection \<open>Concrete platforms and states\<close>

text \<open>
  A Win64 platform that reports \<open>n\<close> devices and opens and starts every one of them
  (device \<open>i\<close> gets the handle \<open>0x1000 + i\<close>), with the constants of \<open>mmsystem.h\<close>;
  one on which device 1 cannot be opened; and one on which device 1 cannot be started.
  All three are builds without \<open>NDEBUG\<close>; \<open>release_build\<close> is the same platform with
  the code built with \<open>NDEBUG\<close>.
\<close>

definition good_winmm :: "32 word \<Rightarrow> 64 winmm" where
  "good_winmm n =
     \<lparr>MIM_DATA = 0x3C3, MMSYSERR_NOERROR = 0, midiInGetNumDevs = n,
      midiInOpen = (\<lambda>i. (0, 0x1000 + word_of_int i)), midiInStart = (\<lambda>h. 0),
      NDEBUG = False\<rparr>"

definition bad_open_winmm :: "32 word \<Rightarrow> 64 winmm" where
  "bad_open_winmm n =
     \<lparr>MIM_DATA = 0x3C3, MMSYSERR_NOERROR = 0, midiInGetNumDevs = n,
      midiInOpen = (\<lambda>i. (if i = 1 then 2 else 0, 0x1000 + word_of_int i)),
      midiInStart = (\<lambda>h. 0), NDEBUG = False\<rparr>"

definition bad_start_winmm :: "32 word \<Rightarrow> 64 winmm" where
  "bad_start_winmm n =
     \<lparr>MIM_DATA = 0x3C3, MMSYSERR_NOERROR = 0, midiInGetNumDevs = n,
      midiInOpen = (\<lambda>i. (0, 0x1000 + word_of_int i)),
      midiInStart = (\<lambda>h. if h = 0x1001 then 5 else 0), NDEBUG = False\<rparr>"

definition release_build :: "'p::len winmm \<Rightarrow> 'p winmm" where
  "release_build P = P\<lparr>NDEBUG := True\<rparr>"

text \<open>A state with the given handles and queue, the lock free and empty histories.\<close>

definition plugin_state :: "64 word list \<Rightarrow> Message list \<Rightarrow> 64 state" where
  "plugin_state hs q =
     \<lparr>handles = hs, messageQueue = q, messageQueueLock = False, calls = [], accesses = []\<rparr>"

text \<open>
  Two note-on messages arriving from the device with handle \<open>0x1000\<close>: note 60 and then
  note 62, both with velocity 64 (\<open>dwParam1\<close> is \<open>0x403C90\<close> and \<open>0x403E90\<close>).
\<close>

definition note_60 :: Message where
  "note_60 = \<lparr>source = 0x1000, status = 0x90, data1 = 60, data2 = 64, padding = 0\<rparr>"

definition note_62 :: Message where
  "note_62 = \<lparr>source = 0x1000, status = 0x90, data1 = 62, data2 = 64, padding = 0\<rparr>"

text \<open>
  The event of the round-trip example: endpoint \<open>0x1234\<close>, status \<open>0x90\<close>, data bytes
  60 and 127 (\<open>dwParam1 = 0x7F3C90\<close> from the device with handle \<open>0x1234\<close>).
\<close>

definition note_on_1234 :: Message where
  "note_on_1234 = \<lparr>source = 0x1234, status = 0x90, data1 = 60, data2 = 127, padding = 0\<rparr>"

text \<open>The state after the two callbacks for note 60 and note 62, in this order.\<close>

definition two_notes_pushed :: "64 state" where
  "two_notes_pushed =
     MyMidiInProc (good_winmm 1) 0 0x1000 0x3C3 0 0x403E90 0
       (MyMidiInProc (good_winmm 1) 0 0x1000 0x3C3 0 0x403C90 0 (plugin_state [0x1000] []))"

section \<open>Properties\<close>

subsection \<open>The layout of a message\<close>

lemma uint64Value_source: "ucast (uint64Value m) = source m"
  unfolding uint64Value_def
  by (rule bit_word_eqI) (auto simp: bit_simps dest: bit_imp_le_length)

lemma uint64Value_status: "ucast (drop_bit 32 (uint64Value m)) = status m"
  unfolding uint64Value_def
  by (rule bit_word_eqI) (auto simp: bit_simps dest: bit_imp_le_length)

lemma uint64Value_data1: "ucast (drop_bit 40 (uint64Value m)) = data1 m"
  unfolding uint64Value_def
  by (rule bit_word_eqI) (auto simp: bit_simps dest: bit_imp_le_length)

lemma uint64Value_data2: "ucast (drop_bit 48 (uint64Value m)) = data2 m"
  unfolding uint64Value_def
  by (rule bit_word_eqI) (auto simp: bit_simps dest: bit_imp_le_length)

lemma uint64Value_padding: "ucast (drop_bit 56 (uint64Value m)) = padding m"
  unfolding uint64Value_def
  by (rule bit_word_eqI) (auto simp: bit_simps dest: bit_imp_le_length)

lemma Message_of_uint64_uint64Value: "Message_of_uint64 (uint64Value m) = m"
  by (simp add: Message_of_uint64_def uint64Value_source uint64Value_status
      uint64Value_data1 uint64Value_data2 uint64Value_padding)

subsection \<open>The two loops of the state update\<close>

lemma close_handles_calls:
  "close_handles hs st = st\<lparr>calls := calls st @ map MidiInClose hs\<rparr>"
  by (induction hs arbitrary: st) (simp_all add: call_def)

lemma slots_ok_step:
  "i < n \<Longrightarrow> slots_ok P i n =
     (fst (midiInOpen P i) = MMSYSERR_NOERROR P
      \<and> midiInStart P (snd (midiInOpen P i)) = MMSYSERR_NOERROR P \<and> slots_ok P (i + 1) n)"
  by (simp add: slots_ok_def upto_rec1 [of i "n - 1"])

lemma slots_ok_done: "\<not> i < n \<Longrightarrow> slots_ok P i n"
  by (simp add: slots_ok_def)

lemma opened_handles_step:
  "i < n \<Longrightarrow> opened_handles P i n = snd (midiInOpen P i) # opened_handles P (i + 1) n"
  by (simp add: opened_handles_def upto_rec1 [of i "n - 1"])

lemma opened_handles_done: "\<not> i < n \<Longrightarrow> opened_handles P i n = []"
  by (simp add: opened_handles_def)

lemma opening_calls_step:
  "i < n \<Longrightarrow> opening_calls P i n =
     MidiInOpen i # MidiInStart (snd (midiInOpen P i)) # opening_calls P (i + 1) n"
  by (simp add: opening_calls_def upto_rec1 [of i "n - 1"])

lemma opening_calls_done: "\<not> i < n \<Longrightarrow> opening_calls P i n = []"
  by (simp add: opening_calls_def)

lemma length_opened_handles: "length (opened_handles P 0 n) = nat n"
  by (simp add: opened_handles_def)

lemma open_devices_ok:
  "NDEBUG P \<or> slots_ok P i n \<Longrightarrow>
   open_devices P i n st =
     Inr (st\<lparr>handles := handles st @ opened_handles P i n,
             calls := calls st @ opening_calls P i n\<rparr>)"
proof (induction P i n st rule: open_devices.induct)
  case (1 P i n st)
  show ?case
  proof (cases "i < n")
    case False
    then show ?thesis
      by (subst open_devices.simps) (simp add: opened_handles_done opening_calls_done)
  next
    case True
    obtain r h where rh: "midiInOpen P i = (r, h)" by (cases "midiInOpen P i")
    from True "1.prems" rh
    have ok: "NDEBUG P \<or> r = MMSYSERR_NOERROR P" "NDEBUG P \<or> midiInStart P h = MMSYSERR_NOERROR P"
      and rest: "NDEBUG P \<or> slots_ok P (i + 1) n"
      by (auto simp add: slots_ok_step)
    have step: "open_devices P i n st =
        open_devices P (i + 1) n
          ((call (MidiInStart h) (call (MidiInOpen i) st))
             \<lparr>handles := handles (call (MidiInStart h) (call (MidiInOpen i) st)) @ [h]\<rparr>)"
      using True rh ok by (subst open_devices.simps) (auto simp add: Let_def)
    have IH: "open_devices P (i + 1) n
          ((call (MidiInStart h) (call (MidiInOpen i) st))
             \<lparr>handles := handles (call (MidiInStart h) (call (MidiInOpen i) st)) @ [h]\<rparr>) =
        Inr (((call (MidiInStart h) (call (MidiInOpen i) st))
             \<lparr>handles := handles (call (MidiInStart h) (call (MidiInOpen i) st)) @ [h]\<rparr>)
           \<lparr>handles := handles ((call (MidiInStart h) (call (MidiInOpen i) st))
             \<lparr>handles := handles (call (MidiInStart h) (call (MidiInOpen i) st)) @ [h]\<rparr>)
               @ opened_handles P (i + 1) n,
             calls := calls ((call (MidiInStart h) (call (MidiInOpen i) st))
             \<lparr>handles := handles (call (MidiInStart h) (call (MidiInOpen i) st)) @ [h]\<rparr>)
               @ opening_calls P (i + 1) n\<rparr>)"
      using "1.IH" [OF True refl rh [symmetric] refl _ refl refl _ rest] ok by blast
    show ?thesis
      unfolding step IH using True rh
      by (simp add: call_def opened_handles_step opening_calls_step)
  qed
qed

lemma open_devices_fail:
  "\<not> NDEBUG P \<Longrightarrow> \<not> slots_ok P i n \<Longrightarrow> open_devices P i n st = Inl AssertionFailed"
proof (induction P i n st rule: open_devices.induct)
  case (1 P i n st)
  show ?case
  proof (cases "i < n")
    case False
    with "1.prems" show ?thesis by (simp add: slots_ok_done)
  next
    case True
    obtain r h where rh: "midiInOpen P i = (r, h)" by (cases "midiInOpen P i")
    show ?thesis
    proof (cases "r = MMSYSERR_NOERROR P \<and> midiInStart P h = MMSYSERR_NOERROR P")
      case False
      then show ?thesis using True rh "1.prems"(1)
        by (subst open_devices.simps) (auto simp add: Let_def)
    next
      case ok: True
      with True "1.prems" rh have rest: "\<not> slots_ok P (i + 1) n"
        by (simp add: slots_ok_step)
      have "open_devices P (i + 1) n
          ((call (MidiInStart h) (call (MidiInOpen i) st))
             \<lparr>handles := handles (call (MidiInStart h) (call (MidiInOpen i) st)) @ [h]\<rparr>) =
           Inl AssertionFailed"
        using "1.IH" [OF True refl rh [symmetric] refl _ refl refl _ "1.prems"(1) rest] ok
        by simp
      then show ?thesis using True rh ok
        by (subst open_devices.simps) (simp add: Let_def)
    qed
  qed
qed

subsection \<open>The state update as a whole\<close>

lemma ResetPluginIfRequired_same_count:
  "sint (midiInGetNumDevs P) = int (length (handles st)) \<Longrightarrow> ResetPluginIfRequired P st = Inr st"
  by (simp add: ResetPluginIfRequired_def)

lemma ResetPluginIfRequired_rebuild_any:
  assumes "sint (midiInGetNumDevs P) \<noteq> int (length (handles st))"
    and "NDEBUG P \<or> slots_ok P 0 (sint (midiInGetNumDevs P))"
  shows "ResetPluginIfRequired P st =
     Inr \<lparr>handles = opened_handles P 0 (sint (midiInGetNumDevs P)),
          messageQueue = [],
          messageQueueLock = messageQueueLock st,
          calls = calls st @ map MidiInClose (handles st)
                    @ opening_calls P 0 (sint (midiInGetNumDevs P)),
          accesses = accesses st @ [(QueueSwap, messageQueueLock st)]\<rparr>"
proof -
  have "open_devices P 0 (sint (midiInGetNumDevs P))
          (queue_swap_empty ((close_handles (handles st) st)\<lparr>handles := []\<rparr>)) =
        Inr ((queue_swap_empty ((close_handles (handles st) st)\<lparr>handles := []\<rparr>))
          \<lparr>handles := handles (queue_swap_empty ((close_handles (handles st) st)\<lparr>handles := []\<rparr>))
               @ opened_handles P 0 (sint (midiInGetNumDevs P)),
           calls := calls (queue_swap_empty ((close_handles (handles st) st)\<lparr>handles := []\<rparr>))
               @ opening_calls P 0 (sint (midiInGetNumDevs P))\<rparr>)"
    by (rule open_devices_ok [OF assms(2)])
  with assms(1) show ?thesis
    by (simp add: ResetPluginIfRequired_def Let_def close_handles_calls
        queue_swap_empty_def access_def)
qed

lemma ResetPluginIfRequired_rebuild:
  assumes "sint (midiInGetNumDevs P) \<noteq> int (length (handles st))"
    and "slots_ok P 0 (sint (midiInGetNumDevs P))"
  shows "ResetPluginIfRequired P st =
     Inr \<lparr>handles = opened_handles P 0 (sint (midiInGetNumDevs P)),
          messageQueue = [],
          messageQueueLock = messageQueueLock st,
          calls = calls st @ map MidiInClose (handles st)
                    @ opening_calls P 0 (sint (midiInGetNumDevs P)),
          accesses = accesses st @ [(QueueSwap, messageQueueLock st)]\<rparr>"
  using assms by (intro ResetPluginIfRequired_rebuild_any) simp_all

lemma ResetPluginIfRequired_abort:
  assumes "\<not> NDEBUG P"
    and "sint (midiInGetNumDevs P) \<noteq> int (length (handles st))"
    and "\<not> slots_ok P 0 (sint (midiInGetNumDevs P))"
  shows "ResetPluginIfRequired P st = Inl AssertionFailed"
  using assms by (simp add: ResetPluginIfRequired_def Let_def open_devices_fail)

subsection \<open>The cast of the size of the vector\<close>

lemma static_cast_int_nat: "0 \<le> sint (w :: 32 word) \<Longrightarrow> static_cast_int (nat (sint w)) = sint w"
  by (simp add: static_cast_int_def)


lemma uint_of_nat_le: "uint (word_of_nat n :: 32 word) \<le> int n"
proof -
  have "unat (word_of_nat n :: 32 word) \<le> n"
    by (simp add: unat_of_nat)
  then show ?thesis
    unfolding uint_nat by linarith
qed

lemma static_cast_int_le: "static_cast_int n \<le> int n"
proof -
  have "- (2 ^ 31) \<le> uint (word_of_nat n :: 32 word)"
    by (rule order_trans [of _ 0]) simp_all
  then have "sint (word_of_nat n :: 32 word) \<le> uint (word_of_nat n :: 32 word)"
    unfolding sint_uint by (simp only: signed_take_bit_int_less_eq_self_iff len_num1 len_bit0 len_bit1 One_nat_def) simp
  also note uint_of_nat_le
  finally show ?thesis by (simp add: static_cast_int_def)
qed

lemma static_cast_int_small:
  assumes "n < 2 ^ 31"
  shows "static_cast_int n = int n"
proof -
  have "unat (word_of_nat n :: 32 word) = n"
    using assms by (simp add: unat_of_nat)
  then have u: "uint (word_of_nat n :: 32 word) = int n"
    unfolding uint_nat by simp
  have "signed_take_bit 31 (int n) = int n"
    using assms by (simp add: signed_take_bit_int_eq_self_iff)
  then show ?thesis
    by (simp add: static_cast_int_def sint_uint u)
qed

subsection \<open>Dequeueing\<close>

lemma DequeueIncomingData_nonempty:
  assumes "sint (midiInGetNumDevs P) = int (length (handles st))"
    and "messageQueue st \<noteq> []"
  shows "DequeueIncomingData P st =
     Inr (uint64Value (last (messageQueue st)),
          st\<lparr>messageQueue := tl (messageQueue st),
             messageQueueLock := False,
             accesses := accesses st @ [(QueueEmpty, messageQueueLock st), (QueueBack, True),
                                        (QueuePop, True)]\<rparr>)"
  using assms
  by (simp add: DequeueIncomingData_def ResetPluginIfRequired_same_count Let_def access_def
      lock_def unlock_def queue_pop_def)

lemma DequeueIncomingData_empty:
  assumes "sint (midiInGetNumDevs P) = int (length (handles st))"
    and "messageQueue st = []"
  shows "DequeueIncomingData P st = Inr (0, access QueueEmpty st)"
  using assms
  by (simp add: DequeueIncomingData_def ResetPluginIfRequired_same_count Let_def access_def)

lemma DequeueIncomingData_rebuild:
  assumes "sint (midiInGetNumDevs P) \<noteq> int (length (handles st))"
    and "ResetPluginIfRequired P st = Inr st1"
  shows "messageQueue st1 = [] \<and> DequeueIncomingData P st = Inr (0, access QueueEmpty st1)"
proof -
  have ok: "NDEBUG P \<or> slots_ok P 0 (sint (midiInGetNumDevs P))"
    using assms ResetPluginIfRequired_abort [of P st] by auto
  have "messageQueue st1 = []"
    using assms ResetPluginIfRequired_rebuild_any [OF assms(1) ok] by auto
  then show ?thesis
    using assms(2) by (simp add: DequeueIncomingData_def Let_def access_def)
qed

subsection \<open>The concrete states\<close>

lemma two_notes_pushed_eq:
  "two_notes_pushed =
     \<lparr>handles = [0x1000], messageQueue = [note_60, note_62], messageQueueLock = False,
      calls = [], accesses = [(QueuePush, True), (QueuePush, True)]\<rparr>"
  by (simp add: two_notes_pushed_def MyMidiInProc_def good_winmm_def plugin_state_def
      Let_def lock_def unlock_def queue_push_def access_def Message_init_def ConvertHandle_def
      note_60_def note_62_def)

lemma uint64Value_note_62: "uint64Value note_62 = 0x00403E9000001000"
  by (simp add: uint64Value_def note_62_def)

lemma uint64Value_note_60: "uint64Value note_60 = 0x00403C9000001000"
  by (simp add: uint64Value_def note_60_def)

lemma good_winmm_simps:
  "MIM_DATA (good_winmm n) = 0x3C3" "MMSYSERR_NOERROR (good_winmm n) = 0"
  "midiInGetNumDevs (good_winmm n) = n"
  "midiInOpen (good_winmm n) i = (0, 0x1000 + word_of_int i)"
  "midiInStart (good_winmm n) h = 0"
  "NDEBUG (good_winmm n) = False"
  by (simp_all add: good_winmm_def)

lemma plugin_state_simps:
  "handles (plugin_state hs q) = hs" "messageQueue (plugin_state hs q) = q"
  "messageQueueLock (plugin_state hs q) = False" "calls (plugin_state hs q) = []"
  "accesses (plugin_state hs q) = []"
  by (simp_all add: plugin_state_def)

lemma bad_open_winmm_simps:
  "MIM_DATA (bad_open_winmm n) = 0x3C3" "MMSYSERR_NOERROR (bad_open_winmm n) = 0"
  "midiInGetNumDevs (bad_open_winmm n) = n"
  "midiInOpen (bad_open_winmm n) i = (if i = 1 then 2 else 0, 0x1000 + word_of_int i)"
  "midiInStart (bad_open_winmm n) h = 0"
  "NDEBUG (bad_open_winmm n) = False"
  by (simp_all add: bad_open_winmm_def)

lemma bad_start_winmm_simps:
  "MIM_DATA (bad_start_winmm n) = 0x3C3" "MMSYSERR_NOERROR (bad_start_winmm n) = 0"
  "midiInGetNumDevs (bad_start_winmm n) = n"
  "midiInOpen (bad_start_winmm n) i = (0, 0x1000 + word_of_int i)"
  "midiInStart (bad_start_winmm n) h = (if h = 0x1001 then 5 else 0)"
  "NDEBUG (bad_start_winmm n) = False"
  by (simp_all add: bad_start_winmm_def)

lemma release_build_simps:
  "MIM_DATA (release_build P) = MIM_DATA P"
  "MMSYSERR_NOERROR (release_build P) = MMSYSERR_NOERROR P"
  "midiInGetNumDevs (release_build P) = midiInGetNumDevs P"
  "midiInOpen (release_build P) = midiInOpen P"
  "midiInStart (release_build P) = midiInStart P"
  "NDEBUG (release_build P) = True"
  by (simp_all add: release_build_def)

lemma slots_ok_good_winmm: "slots_ok (good_winmm n) i k"
  by (simp add: slots_ok_def good_winmm_simps list_all_iff)

lemma note_on_1234_pushed:
  "MyMidiInProc (good_winmm 1) 0 0x1234 0x3C3 0 0x7F3C90 0 (plugin_state [0x1234] []) =
     \<lparr>handles = [0x1234], messageQueue = [note_on_1234], messageQueueLock = False,
      calls = [], accesses = [(QueuePush, True)]\<rparr>"
  by (simp add: MyMidiInProc_def good_winmm_simps plugin_state_def Let_def lock_def unlock_def
      queue_push_def access_def Message_init_def ConvertHandle_def note_on_1234_def)

lemma uint64Value_note_on_1234: "uint64Value note_on_1234 = 0x007F3C9000001234"
  by (simp add: uint64Value_def note_on_1234_def)

subsection \<open>What a dequeue returns, and the size of the registry\<close>

lemma DequeueIncomingData_nonzero:
  assumes "DequeueIncomingData P st = Inr (v, st')" and "v \<noteq> 0"
  shows "messageQueue st \<noteq> [] \<and> v = uint64Value (last (messageQueue st))"
proof (cases "sint (midiInGetNumDevs P) = int (length (handles st))")
  case True
  show ?thesis
  proof (cases "messageQueue st = []")
    case True
    with \<open>sint (midiInGetNumDevs P) = int (length (handles st))\<close> assms show ?thesis
      by (simp add: DequeueIncomingData_empty)
  next
    case False
    with True assms show ?thesis
      by (simp add: DequeueIncomingData_nonempty)
  qed
next
  case False
  show ?thesis
  proof (cases "ResetPluginIfRequired P st")
    case (Inl e)
    with assms show ?thesis by (simp add: DequeueIncomingData_def)
  next
    case (Inr st1)
    with False assms show ?thesis
      using DequeueIncomingData_rebuild [OF False Inr] by simp
  qed
qed

lemma opened_handles_negative: "n \<le> 0 \<Longrightarrow> opened_handles P 0 n = []"
  by (simp add: opened_handles_def)

lemma opening_calls_negative: "n \<le> 0 \<Longrightarrow> opening_calls P 0 n = []"
  by (simp add: opening_calls_def)

lemma length_handles_after_reset:
  assumes "ResetPluginIfRequired P st = Inr st'"
  shows "length (handles st') = nat (sint (midiInGetNumDevs P))"
proof (cases "sint (midiInGetNumDevs P) = int (length (handles st))")
  case True
  with assms show ?thesis by (simp add: ResetPluginIfRequired_same_count)
next
  case False
  have ok: "NDEBUG P \<or> slots_ok P 0 (sint (midiInGetNumDevs P))"
    using assms False ResetPluginIfRequired_abort [of P st] by auto
  show ?thesis
    using assms ResetPluginIfRequired_rebuild_any [OF False ok]
    by (auto simp add: length_opened_handles)
qed

text \<open>
  Whenever the state update returns, the registry holds fewer than \<open>2^31\<close> handles: the
  size is the device count, which went through an \<open>int\<close>.
\<close>

lemma handles_fit_int:
  assumes "ResetPluginIfRequired P st = Inr st'"
  shows "length (handles st') < 2 ^ 31"
proof -
  have "sint (midiInGetNumDevs P) < 2 ^ 31"
    using sint_lt [of "midiInGetNumDevs P"] by simp
  then have "nat (sint (midiInGetNumDevs P)) < 2 ^ 31"
    by (cases "0 \<le> sint (midiInGetNumDevs P)") (simp_all add: nat_less_iff)
  then show ?thesis
    by (simp add: length_handles_after_reset [OF assms])
qed

section \<open>The claims\<close>

text \<open>
  C1. Each dequeue removes and returns the oldest queued event, so the consumer observes the
  pushed events in push order. The code reads the element to return with \<open>back()\<close>, the
  newest one, and removes the oldest with \<open>pop()\<close>. At the state reached by two callbacks
  (note 60, then note 62), the first dequeue returns the encoding of note 62 and removes
  note 60, which is never returned; a second dequeue returns note 62 again.
\<close>

theorem C1_dequeue_returns_newest_removes_oldest:
  "messageQueue two_notes_pushed = [note_60, note_62]
   \<and> DequeueIncomingData (good_winmm 1) two_notes_pushed =
       Inr (uint64Value note_62,
            \<lparr>handles = [0x1000], messageQueue = [note_62], messageQueueLock = False,
             calls = [],
             accesses = [(QueuePush, True), (QueuePush, True), (QueueEmpty, False),
                         (QueueBack, True), (QueuePop, True)]\<rparr>)
   \<and> returned (DequeueIncomingData (good_winmm 1)
         \<lparr>handles = [0x1000], messageQueue = [note_62], messageQueueLock = False,
          calls = [],
          accesses = [(QueuePush, True), (QueuePush, True), (QueueEmpty, False),
                      (QueueBack, True), (QueuePop, True)]\<rparr>) = Some (uint64Value note_62)
   \<and> uint64Value note_60 \<noteq> uint64Value note_62"
  by (simp add: two_notes_pushed_eq DequeueIncomingData_nonempty good_winmm_simps
      returned_def uint64Value_note_60 uint64Value_note_62)

text \<open>
  C2, as described: a nonzero dequeued value has the endpoint identifier in bits 63-32, the
  status in bits 31-24, data1 in bits 23-16, data2 in bits 15-8 and a zero low byte. It
  fails for the event of endpoint \<open>0x1234\<close> with status \<open>0x90\<close> and data bytes 60 and
  127: the value dequeued is \<open>0x007F3C9000001234\<close>, whose bits 63-32 are \<open>0x007F3C90\<close>
  and whose low byte is \<open>0x34\<close>.
\<close>

theorem C2_described_layout_counterexample:
  "returned (DequeueIncomingData (good_winmm 1)
      (MyMidiInProc (good_winmm 1) 0 0x1234 0x3C3 0 0x7F3C90 0 (plugin_state [0x1234] [])))
     = Some 0x007F3C9000001234
   \<and> (0x007F3C9000001234 :: 64 word) \<noteq> 0
   \<and> described_endpointId 0x007F3C9000001234 = 0x007F3C90
   \<and> described_endpointId 0x007F3C9000001234 \<noteq> 0x1234
   \<and> described_status 0x007F3C9000001234 = 0
   \<and> described_data1 0x007F3C9000001234 = 0
   \<and> described_data2 0x007F3C9000001234 = 0x12
   \<and> described_low_byte 0x007F3C9000001234 = 0x34"
  by (simp add: note_on_1234_pushed DequeueIncomingData_nonempty good_winmm_simps returned_def
      uint64Value_note_on_1234 described_endpointId_def described_status_def
      described_data1_def described_data2_def described_low_byte_def)

text \<open>
  C2, amended. Every nonzero value returned by the dequeue is the \<open>uint64Value\<close> of a
  message that was in the queue, and carries the endpoint identifier in bits 31-0, the status
  in bits 39-32, data1 in bits 47-40 and data2 in bits 55-48; bits 63-56 are the padding byte
  of the union, which the constructor does not write.
\<close>

theorem C2_dequeued_value_layout:
  assumes "DequeueIncomingData P st = Inr (v, st')" and "v \<noteq> 0"
  shows "\<exists>m. m \<in> set (messageQueue st) \<and> v = uint64Value m
           \<and> ucast v = source m
           \<and> ucast (drop_bit 32 v) = status m
           \<and> ucast (drop_bit 40 v) = data1 m
           \<and> ucast (drop_bit 48 v) = data2 m
           \<and> ucast (drop_bit 56 v) = padding m"
proof -
  from DequeueIncomingData_nonzero [OF assms]
  have ne: "messageQueue st \<noteq> []" and v: "v = uint64Value (last (messageQueue st))"
    by simp_all
  from ne have "last (messageQueue st) \<in> set (messageQueue st)" by simp
  with v show ?thesis
    by (intro exI [of _ "last (messageQueue st)"])
       (simp add: uint64Value_source uint64Value_status uint64Value_data1 uint64Value_data2
         uint64Value_padding)
qed

theorem C2_dequeued_value_layout_witness:
  "DequeueIncomingData (good_winmm 1) (plugin_state [0x1234] [note_on_1234]) =
     Inr (0x007F3C9000001234,
          \<lparr>handles = [0x1234], messageQueue = [], messageQueueLock = False, calls = [],
           accesses = [(QueueEmpty, False), (QueueBack, True), (QueuePop, True)]\<rparr>)
   \<and> (0x007F3C9000001234 :: 64 word) \<noteq> 0
   \<and> (ucast (0x007F3C9000001234 :: 64 word) :: 32 word) = 0x1234
   \<and> (ucast (drop_bit 32 (0x007F3C9000001234 :: 64 word)) :: 8 word) = 0x90
   \<and> (ucast (drop_bit 40 (0x007F3C9000001234 :: 64 word)) :: 8 word) = 60
   \<and> (ucast (drop_bit 48 (0x007F3C9000001234 :: 64 word)) :: 8 word) = 127"
proof -
  have run: "DequeueIncomingData (good_winmm 1) (plugin_state [0x1234] [note_on_1234]) =
     Inr (0x007F3C9000001234,
          \<lparr>handles = [0x1234], messageQueue = [], messageQueueLock = False, calls = [],
           accesses = [(QueueEmpty, False), (QueueBack, True), (QueuePop, True)]\<rparr>)"
    by (simp add: DequeueIncomingData_nonempty good_winmm_simps plugin_state_simps
        uint64Value_note_on_1234)
  have nz: "(0x007F3C9000001234 :: 64 word) \<noteq> 0" by simp
  from C2_dequeued_value_layout [OF run nz]
  have "ucast (0x007F3C9000001234 :: 64 word) = source note_on_1234
      \<and> ucast (drop_bit 32 (0x007F3C9000001234 :: 64 word)) = status note_on_1234
      \<and> ucast (drop_bit 40 (0x007F3C9000001234 :: 64 word)) = data1 note_on_1234
      \<and> ucast (drop_bit 48 (0x007F3C9000001234 :: 64 word)) = data2 note_on_1234"
    by (simp add: plugin_state_simps)
  then show ?thesis
    using run nz by (simp add: note_on_1234_def)
qed

text \<open>
  C3. When the live device count \<open>n\<close>, a count that fits the \<open>int\<close> it is stored in,
  differs from the size of the registry (and the platform opens and starts the devices
  \<open>0..n-1\<close>), the state update closes every tracked
  session, empties the queue, opens and starts the devices \<open>0..n-1\<close> in order, and leaves a
  registry of size \<open>n\<close>. The dequeue that found the change returns 0; afterwards
  \<open>CountEndpoints\<close> returns \<open>n\<close> and a dequeue finds the queue empty.
\<close>

theorem C3_refresh_rebuilds_sessions:
  assumes "0 \<le> sint (midiInGetNumDevs P)"
    and "sint (midiInGetNumDevs P) \<noteq> int (length (handles st))"
    and "slots_ok P 0 (sint (midiInGetNumDevs P))"
  shows "\<exists>st'. ResetPluginIfRequired P st = Inr st'
     \<and> calls st' = calls st @ map MidiInClose (handles st)
                      @ opening_calls P 0 (sint (midiInGetNumDevs P))
     \<and> handles st' = opened_handles P 0 (sint (midiInGetNumDevs P))
     \<and> int (length (handles st')) = sint (midiInGetNumDevs P)
     \<and> messageQueue st' = []
     \<and> DequeueIncomingData P st = Inr (0, access QueueEmpty st')
     \<and> CountEndpoints P st' = Inr (sint (midiInGetNumDevs P), st')
     \<and> DequeueIncomingData P st' = Inr (0, access QueueEmpty st')
     \<and> messageQueue (access QueueEmpty st') = []"
proof -
  define st' where "st' =
     \<lparr>handles = opened_handles P 0 (sint (midiInGetNumDevs P)),
      messageQueue = [],
      messageQueueLock = messageQueueLock st,
      calls = calls st @ map MidiInClose (handles st)
                @ opening_calls P 0 (sint (midiInGetNumDevs P)),
      accesses = accesses st @ [(QueueSwap, messageQueueLock st)]\<rparr>"
  have reset: "ResetPluginIfRequired P st = Inr st'"
    unfolding st'_def by (rule ResetPluginIfRequired_rebuild [OF assms(2,3)])
  have len: "int (length (handles st')) = sint (midiInGetNumDevs P)"
    using assms(1) by (simp add: st'_def length_opened_handles)
  have same: "ResetPluginIfRequired P st' = Inr st'"
    using len by (simp add: ResetPluginIfRequired_same_count)
  have q: "messageQueue st' = []"
    by (simp add: st'_def)
  have count: "CountEndpoints P st' = Inr (sint (midiInGetNumDevs P), st')"
    using assms(1) by (simp add: CountEndpoints_def same length_handles_after_reset [OF reset]
        static_cast_int_nat)
  have deq: "DequeueIncomingData P st = Inr (0, access QueueEmpty st')"
    using DequeueIncomingData_rebuild [OF assms(2) reset] by simp
  have deq': "DequeueIncomingData P st' = Inr (0, access QueueEmpty st')"
    using len q by (simp add: DequeueIncomingData_empty)
  have "calls st' = calls st @ map MidiInClose (handles st)
                      @ opening_calls P 0 (sint (midiInGetNumDevs P))"
    and "handles st' = opened_handles P 0 (sint (midiInGetNumDevs P))"
    and "messageQueue (access QueueEmpty st') = []"
    by (simp_all add: st'_def access_def)
  with reset len q count deq deq' show ?thesis by blast
qed

theorem C3_refresh_rebuilds_sessions_witness:
  "0 \<le> sint (midiInGetNumDevs (good_winmm 3))
   \<and> sint (midiInGetNumDevs (good_winmm 3))
        \<noteq> int (length (handles (plugin_state [0x1000, 0x1001] [note_60])))
   \<and> slots_ok (good_winmm 3) 0 (sint (midiInGetNumDevs (good_winmm 3)))
   \<and> ResetPluginIfRequired (good_winmm 3) (plugin_state [0x1000, 0x1001] [note_60]) =
       Inr \<lparr>handles = [0x1000, 0x1001, 0x1002], messageQueue = [], messageQueueLock = False,
            calls = [MidiInClose 0x1000, MidiInClose 0x1001, MidiInOpen 0, MidiInStart 0x1000,
                     MidiInOpen 1, MidiInStart 0x1001, MidiInOpen 2, MidiInStart 0x1002],
            accesses = [(QueueSwap, False)]\<rparr>
   \<and> returned (DequeueIncomingData (good_winmm 3) (plugin_state [0x1000, 0x1001] [note_60]))
       = Some 0
   \<and> returned (CountEndpoints (good_winmm 3)
        \<lparr>handles = [0x1000, 0x1001, 0x1002], messageQueue = [], messageQueueLock = False,
         calls = [MidiInClose 0x1000, MidiInClose 0x1001, MidiInOpen 0, MidiInStart 0x1000,
                  MidiInOpen 1, MidiInStart 0x1001, MidiInOpen 2, MidiInStart 0x1002],
         accesses = [(QueueSwap, False)]\<rparr>) = Some 3"
proof -
  have n: "0 \<le> sint (midiInGetNumDevs (good_winmm 3))"
    by (simp add: good_winmm_simps)
  have ne: "sint (midiInGetNumDevs (good_winmm 3))
        \<noteq> int (length (handles (plugin_state [0x1000, 0x1001] [note_60])))"
    by (simp add: good_winmm_simps plugin_state_simps)
  have ok: "slots_ok (good_winmm 3) 0 (sint (midiInGetNumDevs (good_winmm 3)))"
    by (rule slots_ok_good_winmm)
  have hs: "opened_handles (good_winmm 3) 0 3 = [0x1000, 0x1001, 0x1002]"
    by (simp add: opened_handles_def good_winmm_simps upto.simps)
  have cs: "opening_calls (good_winmm 3) 0 3 =
      [MidiInOpen 0, MidiInStart 0x1000, MidiInOpen 1, MidiInStart 0x1001,
       MidiInOpen 2, MidiInStart 0x1002]"
    by (simp add: opening_calls_def good_winmm_simps upto.simps)
  from C3_refresh_rebuilds_sessions [OF n ne ok]
  obtain st' where st': "ResetPluginIfRequired (good_winmm 3)
        (plugin_state [0x1000, 0x1001] [note_60]) = Inr st'"
    and calls: "calls st' = [MidiInClose 0x1000, MidiInClose 0x1001, MidiInOpen 0,
        MidiInStart 0x1000, MidiInOpen 1, MidiInStart 0x1001, MidiInOpen 2, MidiInStart 0x1002]"
    and handles: "handles st' = [0x1000, 0x1001, 0x1002]"
    and queue: "messageQueue st' = []"
    and deq: "DequeueIncomingData (good_winmm 3) (plugin_state [0x1000, 0x1001] [note_60])
        = Inr (0, access QueueEmpty st')"
    and count: "CountEndpoints (good_winmm 3) st' = Inr (3, st')"
    by (auto simp add: good_winmm_simps plugin_state_simps hs cs)
  have "st' = \<lparr>handles = [0x1000, 0x1001, 0x1002], messageQueue = [], messageQueueLock = False,
            calls = [MidiInClose 0x1000, MidiInClose 0x1001, MidiInOpen 0, MidiInStart 0x1000,
                     MidiInOpen 1, MidiInStart 0x1001, MidiInOpen 2, MidiInStart 0x1002],
            accesses = [(QueueSwap, False)]\<rparr>"
    using st' ResetPluginIfRequired_rebuild [OF ne ok]
    by (simp add: good_winmm_simps plugin_state_simps hs cs)
  with st' deq count n ne ok show ?thesis
    by (simp add: returned_def)
qed

text \<open>
  C4. The refresh is idempotent. When the live device count equals the size of the registry
  the state update changes nothing: no session is closed or opened and the queue is
  untouched. Calling \<open>CountEndpoints\<close> twice against the same platform gives the same
  count both times, and the second call makes no winmm call and leaves the registry as it
  is; with a device count that fits an \<open>int\<close> it leaves the whole state as it is.
\<close>

theorem C4_refresh_idempotent:
  "(sint (midiInGetNumDevs P) = int (length (handles st)) \<longrightarrow>
      ResetPluginIfRequired P st = Inr st
      \<and> CountEndpoints P st = Inr (sint (midiInGetNumDevs P), st))
   \<and> (CountEndpoints P st = Inr (c, st1) \<longrightarrow>
        (\<exists>st2. CountEndpoints P st1 = Inr (c, st2)
            \<and> calls st2 = calls st1 \<and> handles st2 = handles st1
            \<and> (0 \<le> sint (midiInGetNumDevs P) \<longrightarrow> st2 = st1)))"
proof (intro conjI impI)
  assume eq: "sint (midiInGetNumDevs P) = int (length (handles st))"
  then show "ResetPluginIfRequired P st = Inr st"
    by (rule ResetPluginIfRequired_same_count)
  moreover from eq have "length (handles st) = nat (sint (midiInGetNumDevs P))"
    and "0 \<le> sint (midiInGetNumDevs P)"
    by simp_all
  ultimately show "CountEndpoints P st = Inr (sint (midiInGetNumDevs P), st)"
    by (simp add: CountEndpoints_def static_cast_int_nat)
next
  assume first: "CountEndpoints P st = Inr (c, st1)"
  then have reset: "ResetPluginIfRequired P st = Inr st1"
    and c: "c = static_cast_int (length (handles st1))"
    by (auto simp add: CountEndpoints_def split: sum.splits)
  have len: "length (handles st1) = nat (sint (midiInGetNumDevs P))"
    by (rule length_handles_after_reset [OF reset])
  show "\<exists>st2. CountEndpoints P st1 = Inr (c, st2)
            \<and> calls st2 = calls st1 \<and> handles st2 = handles st1
            \<and> (0 \<le> sint (midiInGetNumDevs P) \<longrightarrow> st2 = st1)"
  proof (cases "0 \<le> sint (midiInGetNumDevs P)")
    case True
    with len have "sint (midiInGetNumDevs P) = int (length (handles st1))" by simp
    then have "ResetPluginIfRequired P st1 = Inr st1"
      by (rule ResetPluginIfRequired_same_count)
    then have "CountEndpoints P st1 = Inr (c, st1)"
      by (simp add: CountEndpoints_def c)
    then show ?thesis by simp
  next
    case False
    then have neg: "sint (midiInGetNumDevs P) \<le> 0" by simp
    from False len have empty: "handles st1 = []" by simp
    with False have ne: "sint (midiInGetNumDevs P) \<noteq> int (length (handles st1))" by simp
    have ok: "slots_ok P 0 (sint (midiInGetNumDevs P))"
      using False by (simp add: slots_ok_done)
    have "CountEndpoints P st1 =
        Inr (c, \<lparr>handles = [], messageQueue = [], messageQueueLock = messageQueueLock st1,
                 calls = calls st1,
                 accesses = accesses st1 @ [(QueueSwap, messageQueueLock st1)]\<rparr>)"
      by (simp add: CountEndpoints_def ResetPluginIfRequired_rebuild [OF ne ok] c empty
          opened_handles_negative [OF neg] opening_calls_negative [OF neg])
    then show ?thesis using False empty by simp
  qed
qed

theorem C4_refresh_idempotent_witness:
  "sint (midiInGetNumDevs (good_winmm 2)) = int (length (handles (plugin_state [0x1000, 0x1001] [note_60])))
   \<and> ResetPluginIfRequired (good_winmm 2) (plugin_state [0x1000, 0x1001] [note_60]) =
       Inr (plugin_state [0x1000, 0x1001] [note_60])
   \<and> CountEndpoints (good_winmm 2) (plugin_state [0x1000, 0x1001] [note_60]) =
       Inr (2, plugin_state [0x1000, 0x1001] [note_60])
   \<and> 0 \<le> sint (midiInGetNumDevs (good_winmm 2))
   \<and> (\<exists>st2. CountEndpoints (good_winmm 2) (plugin_state [0x1000, 0x1001] [note_60]) =
         Inr (2, st2) \<and> st2 = plugin_state [0x1000, 0x1001] [note_60])"
proof -
  have eq: "sint (midiInGetNumDevs (good_winmm 2)) =
      int (length (handles (plugin_state [0x1000, 0x1001] [note_60])))"
    by (simp add: good_winmm_simps plugin_state_simps)
  have n: "0 \<le> sint (midiInGetNumDevs (good_winmm 2))"
    by (simp add: good_winmm_simps)
  note inst = C4_refresh_idempotent [of "good_winmm 2" "plugin_state [0x1000, 0x1001] [note_60]"
      2 "plugin_state [0x1000, 0x1001] [note_60]"]
  from inst eq have first: "ResetPluginIfRequired (good_winmm 2)
        (plugin_state [0x1000, 0x1001] [note_60]) = Inr (plugin_state [0x1000, 0x1001] [note_60])"
    and count: "CountEndpoints (good_winmm 2) (plugin_state [0x1000, 0x1001] [note_60]) =
       Inr (2, plugin_state [0x1000, 0x1001] [note_60])"
    by (simp_all add: good_winmm_simps)
  from inst count n have "\<exists>st2. CountEndpoints (good_winmm 2)
        (plugin_state [0x1000, 0x1001] [note_60]) = Inr (2, st2)
        \<and> st2 = plugin_state [0x1000, 0x1001] [note_60]"
    by simp
  with eq first count n show ?thesis by simp
qed

text \<open>
  C5. Every queue operation runs its whole check-and-mutate sequence while holding the
  mutual-exclusion guard. The callback does: its push is recorded with the lock held. The
  dequeue calls \<open>empty()\<close> before it takes the lock, and the state update swaps the queue
  with an empty one without taking the lock at all: both accesses are recorded with the lock
  free.
\<close>

theorem C5_queue_accessed_without_lock:
  "DequeueIncomingData (good_winmm 1) (plugin_state [0x1000] [note_60]) =
     Inr (uint64Value note_60,
          \<lparr>handles = [0x1000], messageQueue = [], messageQueueLock = False, calls = [],
           accesses = [(QueueEmpty, False), (QueueBack, True), (QueuePop, True)]\<rparr>)
   \<and> ResetPluginIfRequired (good_winmm 2) (plugin_state [0x1000] [note_60]) =
     Inr \<lparr>handles = [0x1000, 0x1001], messageQueue = [], messageQueueLock = False,
          calls = [MidiInClose 0x1000, MidiInOpen 0, MidiInStart 0x1000,
                   MidiInOpen 1, MidiInStart 0x1001],
          accesses = [(QueueSwap, False)]\<rparr>
   \<and> accesses (MyMidiInProc (good_winmm 1) 0 0x1000 0x3C3 0 0x403C90 0
         (plugin_state [0x1000] [])) = [(QueuePush, True)]"
proof (intro conjI)
  show "DequeueIncomingData (good_winmm 1) (plugin_state [0x1000] [note_60]) =
     Inr (uint64Value note_60,
          \<lparr>handles = [0x1000], messageQueue = [], messageQueueLock = False, calls = [],
           accesses = [(QueueEmpty, False), (QueueBack, True), (QueuePop, True)]\<rparr>)"
    by (simp add: DequeueIncomingData_nonempty good_winmm_simps plugin_state_simps)
  have ok: "slots_ok (good_winmm 2) 0 (sint (midiInGetNumDevs (good_winmm 2)))"
    by (simp add: slots_ok_def good_winmm_simps list_all_iff)
  show "ResetPluginIfRequired (good_winmm 2) (plugin_state [0x1000] [note_60]) =
     Inr \<lparr>handles = [0x1000, 0x1001], messageQueue = [], messageQueueLock = False,
          calls = [MidiInClose 0x1000, MidiInOpen 0, MidiInStart 0x1000,
                   MidiInOpen 1, MidiInStart 0x1001],
          accesses = [(QueueSwap, False)]\<rparr>"
    by (subst ResetPluginIfRequired_rebuild [OF _ ok])
       (simp_all add: good_winmm_simps plugin_state_simps opened_handles_def opening_calls_def
          upto.simps)
  show "accesses (MyMidiInProc (good_winmm 1) 0 0x1000 0x3C3 0 0x403C90 0
         (plugin_state [0x1000] [])) = [(QueuePush, True)]"
    by (simp add: MyMidiInProc_def good_winmm_simps plugin_state_simps Let_def lock_def
        unlock_def queue_push_def access_def)
qed

text \<open>
  C6. Round trip: for every MIDI event, writing it into the 64-bit value and reading the four
  members back from that value gives the endpoint identifier, the status and the two data
  bytes again.
\<close>

theorem C6_round_trip:
  "source (Message_of_uint64 (uint64Value m)) = source m
   \<and> status (Message_of_uint64 (uint64Value m)) = status m
   \<and> data1 (Message_of_uint64 (uint64Value m)) = data1 m
   \<and> data2 (Message_of_uint64 (uint64Value m)) = data2 m"
  by (simp add: Message_of_uint64_uint64Value)

text \<open>The event named in the description, through the constructor and back.\<close>

lemma round_trip_example:
  "uint64Value (Message_init 0 (0x1234 :: 64 word) 0x90 60 127) = 0x007F3C9000001234
   \<and> Message_of_uint64 0x007F3C9000001234 =
       \<lparr>source = 0x1234, status = 0x90, data1 = 60, data2 = 127, padding = 0\<rparr>"
  by (simp add: uint64Value_def Message_init_def ConvertHandle_def Message_of_uint64_def)

text \<open>
  C7. On an empty queue, with no change of the device count pending, the dequeue returns the
  all-zero value and leaves the queue, the registry and the lock as they are: the only
  change to the state is the record of the \<open>empty()\<close> check.
\<close>

theorem C7_dequeue_on_empty_queue:
  assumes "messageQueue st = []"
    and "sint (midiInGetNumDevs P) = int (length (handles st))"
  shows "DequeueIncomingData P st =
           Inr (0, st\<lparr>accesses := accesses st @ [(QueueEmpty, messageQueueLock st)]\<rparr>)"
  using assms by (simp add: DequeueIncomingData_empty access_def)

theorem C7_dequeue_on_empty_queue_witness:
  "messageQueue (plugin_state [0x1000] []) = []
   \<and> sint (midiInGetNumDevs (good_winmm 1)) = int (length (handles (plugin_state [0x1000] [])))
   \<and> DequeueIncomingData (good_winmm 1) (plugin_state [0x1000] []) =
       Inr (0, \<lparr>handles = [0x1000], messageQueue = [], messageQueueLock = False, calls = [],
                accesses = [(QueueEmpty, False)]\<rparr>)"
proof -
  have q: "messageQueue (plugin_state [0x1000] []) = []"
    by (simp add: plugin_state_simps)
  have n: "sint (midiInGetNumDevs (good_winmm 1)) = int (length (handles (plugin_state [0x1000] [])))"
    by (simp add: good_winmm_simps plugin_state_simps)
  show ?thesis
    using C7_dequeue_on_empty_queue [OF q n] q n by (simp add: plugin_state_def)
qed

text \<open>
  C8. \<open>GetEndpointIDAtIndex\<close> never reads outside the vector. With a registry of fewer
  than \<open>2^31\<close> handles (which \<open>handles_fit_int\<close> shows it always is), an index that is
  negative or at least the size of the registry gives 0, and an index in range gives the
  endpoint identifier of the handle at that index.
\<close>

theorem C8_endpoint_id_at_index:
  "GetEndpointIDAtIndex index st \<noteq> None
   \<and> (length (handles st) < 2 ^ 31 \<longrightarrow>
        (sint index < 0 \<or> int (length (handles st)) \<le> sint index \<longrightarrow>
           GetEndpointIDAtIndex index st = Some 0)
        \<and> (0 \<le> sint index \<and> sint index < int (length (handles st)) \<longrightarrow>
             GetEndpointIDAtIndex index st =
               Some (ConvertHandle (handles st ! nat (sint index)))))"
proof (intro conjI impI)
  show "GetEndpointIDAtIndex index st \<noteq> None"
    using static_cast_int_le [of "length (handles st)"]
    by (simp add: GetEndpointIDAtIndex_def vector_at_def)
next
  assume "length (handles st) < 2 ^ 31" and "sint index < 0 \<or> int (length (handles st)) \<le> sint index"
  then show "GetEndpointIDAtIndex index st = Some 0"
    by (auto simp add: GetEndpointIDAtIndex_def static_cast_int_small)
next
  assume "length (handles st) < 2 ^ 31"
    and "0 \<le> sint index \<and> sint index < int (length (handles st))"
  then show "GetEndpointIDAtIndex index st = Some (ConvertHandle (handles st ! nat (sint index)))"
    by (simp add: GetEndpointIDAtIndex_def static_cast_int_small vector_at_def)
qed

theorem C8_endpoint_id_at_index_witness:
  "length (handles (plugin_state [0x1000, 0x100000001] [])) < 2 ^ 31
   \<and> GetEndpointIDAtIndex (- 1) (plugin_state [0x1000, 0x100000001] []) = Some 0
   \<and> GetEndpointIDAtIndex 2 (plugin_state [0x1000, 0x100000001] []) = Some 0
   \<and> GetEndpointIDAtIndex 0 (plugin_state [0x1000, 0x100000001] []) = Some 0x1000
   \<and> GetEndpointIDAtIndex 1 (plugin_state [0x1000, 0x100000001] []) = Some 1"
proof -
  have len: "length (handles (plugin_state [0x1000, 0x100000001] [])) < 2 ^ 31"
    by (simp add: plugin_state_simps)
  show ?thesis
    using len
      C8_endpoint_id_at_index [of "- 1" "plugin_state [0x1000, 0x100000001] []"]
      C8_endpoint_id_at_index [of 2 "plugin_state [0x1000, 0x100000001] []"]
      C8_endpoint_id_at_index [of 0 "plugin_state [0x1000, 0x100000001] []"]
      C8_endpoint_id_at_index [of 1 "plugin_state [0x1000, 0x100000001] []"]
    by (simp add: plugin_state_simps ConvertHandle_def)
qed

text \<open>
  C9, as stated: during a refresh, any failure of an open or start call aborts rather than
  producing a degraded state. It fails for the code built with \<open>NDEBUG\<close>: with one handle
  tracked and three devices reported, of which device 1 cannot be opened, the state update
  does not abort. It returns a registry of three handles, the second of them the handle of
  the device that failed to open.
\<close>

theorem C9_release_build_counterexample:
  "sint (midiInGetNumDevs (release_build (bad_open_winmm 3)))
     \<noteq> int (length (handles (plugin_state [0x1000] [note_60])))
   \<and> fst (midiInOpen (release_build (bad_open_winmm 3)) 1)
       \<noteq> MMSYSERR_NOERROR (release_build (bad_open_winmm 3))
   \<and> \<not> slots_ok (release_build (bad_open_winmm 3)) 0
         (sint (midiInGetNumDevs (release_build (bad_open_winmm 3))))
   \<and> ResetPluginIfRequired (release_build (bad_open_winmm 3)) (plugin_state [0x1000] [note_60]) =
       Inr \<lparr>handles = [0x1000, 0x1001, 0x1002], messageQueue = [], messageQueueLock = False,
            calls = [MidiInClose 0x1000, MidiInOpen 0, MidiInStart 0x1000,
                     MidiInOpen 1, MidiInStart 0x1001, MidiInOpen 2, MidiInStart 0x1002],
            accesses = [(QueueSwap, False)]\<rparr>
   \<and> ResetPluginIfRequired (release_build (bad_open_winmm 3)) (plugin_state [0x1000] [note_60])
       \<noteq> Inl AssertionFailed"
proof -
  have ne: "sint (midiInGetNumDevs (release_build (bad_open_winmm 3)))
     \<noteq> int (length (handles (plugin_state [0x1000] [note_60])))"
    by (simp add: release_build_simps bad_open_winmm_simps plugin_state_simps)
  have failing: "fst (midiInOpen (release_build (bad_open_winmm 3)) 1)
       \<noteq> MMSYSERR_NOERROR (release_build (bad_open_winmm 3))"
    by (simp add: release_build_simps bad_open_winmm_simps)
  have bad: "\<not> slots_ok (release_build (bad_open_winmm 3)) 0
         (sint (midiInGetNumDevs (release_build (bad_open_winmm 3))))"
    by (simp add: slots_ok_def release_build_simps bad_open_winmm_simps upto.simps)
  have build: "NDEBUG (release_build (bad_open_winmm 3))
      \<or> slots_ok (release_build (bad_open_winmm 3)) 0
         (sint (midiInGetNumDevs (release_build (bad_open_winmm 3))))"
    by (simp add: release_build_simps)
  have run: "ResetPluginIfRequired (release_build (bad_open_winmm 3))
        (plugin_state [0x1000] [note_60]) =
       Inr \<lparr>handles = [0x1000, 0x1001, 0x1002], messageQueue = [], messageQueueLock = False,
            calls = [MidiInClose 0x1000, MidiInOpen 0, MidiInStart 0x1000,
                     MidiInOpen 1, MidiInStart 0x1001, MidiInOpen 2, MidiInStart 0x1002],
            accesses = [(QueueSwap, False)]\<rparr>"
    by (subst ResetPluginIfRequired_rebuild_any [OF ne build])
       (simp add: release_build_simps bad_open_winmm_simps plugin_state_simps
          opened_handles_def opening_calls_def upto.simps)
  from ne failing bad run show ?thesis by simp
qed

text \<open>
  C9, amended. When the platform opens and starts every device \<open>0..n-1\<close>, the state update
  never reaches a failing \<open>assert\<close>, in either build: it returns a state. In the code built
  without \<open>NDEBUG\<close>, when a refresh is due and some device cannot be opened or started, the
  state update aborts on the \<open>assert\<close> and leaves no state.
\<close>

theorem C9_abort_only_on_platform_failure:
  "(slots_ok P 0 (sint (midiInGetNumDevs P)) \<longrightarrow> (\<exists>st'. ResetPluginIfRequired P st = Inr st'))
   \<and> (\<not> NDEBUG P \<and> sint (midiInGetNumDevs P) \<noteq> int (length (handles st))
        \<and> \<not> slots_ok P 0 (sint (midiInGetNumDevs P)) \<longrightarrow>
      ResetPluginIfRequired P st = Inl AssertionFailed)"
proof (intro conjI impI)
  assume ok: "slots_ok P 0 (sint (midiInGetNumDevs P))"
  show "\<exists>st'. ResetPluginIfRequired P st = Inr st'"
  proof (cases "sint (midiInGetNumDevs P) = int (length (handles st))")
    case True
    then show ?thesis by (simp add: ResetPluginIfRequired_same_count)
  next
    case False
    then show ?thesis by (simp add: ResetPluginIfRequired_rebuild [OF False ok])
  qed
next
  assume "\<not> NDEBUG P \<and> sint (midiInGetNumDevs P) \<noteq> int (length (handles st))
        \<and> \<not> slots_ok P 0 (sint (midiInGetNumDevs P))"
  then show "ResetPluginIfRequired P st = Inl AssertionFailed"
    by (simp add: ResetPluginIfRequired_abort)
qed

theorem C9_abort_only_on_platform_failure_witness:
  "slots_ok (good_winmm 3) 0 (sint (midiInGetNumDevs (good_winmm 3)))
   \<and> (\<exists>st'. ResetPluginIfRequired (good_winmm 3) (plugin_state [0x1000] [note_60]) = Inr st')
   \<and> slots_ok (release_build (good_winmm 3)) 0
        (sint (midiInGetNumDevs (release_build (good_winmm 3))))
   \<and> (\<exists>st'. ResetPluginIfRequired (release_build (good_winmm 3))
          (plugin_state [0x1000] [note_60]) = Inr st')
   \<and> \<not> NDEBUG (bad_open_winmm 3)
   \<and> \<not> slots_ok (bad_open_winmm 3) 0 (sint (midiInGetNumDevs (bad_open_winmm 3)))
   \<and> ResetPluginIfRequired (bad_open_winmm 3) (plugin_state [0x1000] [note_60])
       = Inl AssertionFailed
   \<and> \<not> NDEBUG (bad_start_winmm 3)
   \<and> \<not> slots_ok (bad_start_winmm 3) 0 (sint (midiInGetNumDevs (bad_start_winmm 3)))
   \<and> ResetPluginIfRequired (bad_start_winmm 3) (plugin_state [0x1000] [note_60])
       = Inl AssertionFailed"
proof -
  have good: "slots_ok (good_winmm 3) 0 (sint (midiInGetNumDevs (good_winmm 3)))"
    by (rule slots_ok_good_winmm)
  have good_release: "slots_ok (release_build (good_winmm 3)) 0
        (sint (midiInGetNumDevs (release_build (good_winmm 3))))"
    by (simp add: slots_ok_def release_build_simps good_winmm_simps list_all_iff)
  have bad_open: "\<not> slots_ok (bad_open_winmm 3) 0 (sint (midiInGetNumDevs (bad_open_winmm 3)))"
    by (simp add: slots_ok_def bad_open_winmm_simps upto.simps)
  have bad_start: "\<not> slots_ok (bad_start_winmm 3) 0 (sint (midiInGetNumDevs (bad_start_winmm 3)))"
    by (simp add: slots_ok_def bad_start_winmm_simps upto.simps)
  show ?thesis
    using good good_release bad_open bad_start
      C9_abort_only_on_platform_failure [of "good_winmm 3" "plugin_state [0x1000] [note_60]"]
      C9_abort_only_on_platform_failure [of "release_build (good_winmm 3)"
        "plugin_state [0x1000] [note_60]"]
      C9_abort_only_on_platform_failure [of "bad_open_winmm 3" "plugin_state [0x1000] [note_60]"]
      C9_abort_only_on_platform_failure [of "bad_start_winmm 3" "plugin_state [0x1000] [note_60]"]
    by (simp add: bad_open_winmm_simps bad_start_winmm_simps plugin_state_simps)
qed

text \<open>
  C10. The callback enqueues exactly one event when the message kind is \<open>MIM_DATA\<close>, and
  touches neither the registry nor winmm; for every other message kind it returns with the
  state unchanged.
\<close>

theorem C10_callback_frame:
  "(wMsg = MIM_DATA P \<longrightarrow>
      messageQueue (MyMidiInProc P uninit hMidiIn wMsg dwInstance dwParam1 dwParam2 st) =
        messageQueue st @
          [Message_init uninit hMidiIn (ucast (dwParam1 AND 0xff))
             (ucast (drop_bit 8 dwParam1 AND 0xff)) (ucast (drop_bit 16 dwParam1 AND 0xff))]
      \<and> handles (MyMidiInProc P uninit hMidiIn wMsg dwInstance dwParam1 dwParam2 st) = handles st
      \<and> calls (MyMidiInProc P uninit hMidiIn wMsg dwInstance dwParam1 dwParam2 st) = calls st)
   \<and> (wMsg \<noteq> MIM_DATA P \<longrightarrow>
        MyMidiInProc P uninit hMidiIn wMsg dwInstance dwParam1 dwParam2 st = st)"
  by (simp add: MyMidiInProc_def Let_def lock_def unlock_def queue_push_def access_def)

theorem C10_callback_frame_witness:
  "messageQueue (MyMidiInProc (good_winmm 1) 0 0x1000 0x3C3 0 0x403E90 0
       (plugin_state [0x1000] [note_60])) = [note_60, note_62]
   \<and> MyMidiInProc (good_winmm 1) 0 0x1000 0x3C1 0 0 0 (plugin_state [0x1000] [note_60]) =
       plugin_state [0x1000] [note_60]
   \<and> MyMidiInProc (good_winmm 1) 0 0x1000 0x3C2 0 0 0 (plugin_state [0x1000] [note_60]) =
       plugin_state [0x1000] [note_60]
   \<and> MyMidiInProc (good_winmm 1) 0 0x1000 0x3C5 0 0x403E90 0 (plugin_state [0x1000] [note_60]) =
       plugin_state [0x1000] [note_60]"
  using C10_callback_frame [of "0x3C3" "good_winmm 1" 0 "0x1000" 0 "0x403E90" 0
      "plugin_state [0x1000] [note_60]"]
    C10_callback_frame [of "0x3C1" "good_winmm 1" 0 "0x1000" 0 0 0
      "plugin_state [0x1000] [note_60]"]
    C10_callback_frame [of "0x3C2" "good_winmm 1" 0 "0x1000" 0 0 0
      "plugin_state [0x1000] [note_60]"]
    C10_callback_frame [of "0x3C5" "good_winmm 1" 0 "0x1000" 0 "0x403E90" 0
      "plugin_state [0x1000] [note_60]"]
  by (simp add: good_winmm_simps plugin_state_simps Message_init_def ConvertHandle_def
      note_62_def)

end
